theory Spec2Isabelle
  imports Main
begin

unbundle bit_operations_syntax

section \<open>The operating system seen by \<open>BinarySpec.h\<close>\<close>

text \<open>
  \<open>BinarySpec.h\<close> consists of three inline C functions that only call the operating
  system: \<open>socket\<close>, \<open>fcntl\<close>, \<open>close\<close> and \<open>setsockopt\<close>. The header has no
  state of its own, so everything a call can observe or change lives in the kernel: the
  table of open descriptors and \<open>errno\<close>. The system calls are not part of the
  repository; they are modelled here as a small deterministic machine:

  \<^item> the descriptor table maps a descriptor number to its file status flags and the
    socket options set on it;
  \<^item> \<open>nofile\<close> is the size of the table (the descriptor limit of the process):
    \<open>socket\<close> hands out the lowest free number below it;
  \<^item> \<open>sock_fl\<close> is the flag word the kernel gives a new socket, and \<open>setfl_mask\<close>
    the set of status flags that \<open>F_SETFL\<close> can change (\<open>O_NONBLOCK\<close>, \<open>O_APPEND\<close>,
    ...); both are the kernel's and differ between systems, so they are parameters;
  \<^item> \<open>script\<close> decides which of the coming system calls fail and with which error
    code (one entry is consumed per call, an empty script lets every call proceed), so a
    theorem about all scripts is a theorem about every pattern of failures;
  \<^item> \<open>trace\<close> logs every system call made, with its arguments and its result.

  C \<open>int\<close> values are modelled as \<open>int\<close>: the header does no arithmetic on them, only
  a sign test and one bitwise or, and both agree with two's complement on \<open>int\<close>
  (in particular \<open>x OR -1 = -1\<close>).
\<close>

record fd_entry =
  fl :: int
  sockopts :: "int \<times> int \<rightharpoonup> int"

datatype outcome = Proceed | Fail int

datatype syscall =
    Sys_socket int int int
  | Sys_fcntl int int "int option"
  | Sys_close int
  | Sys_setsockopt int int int int

record os_state =
  fdtab :: "int \<rightharpoonup> fd_entry"
  nofile :: nat
  sock_fl :: int
  setfl_mask :: int
  errno :: int
  script :: "outcome list"
  trace :: "(syscall \<times> int) list"

text \<open>
  The constants of \<open><fcntl.h>\<close>, \<open><sys/socket.h>\<close> and \<open><errno.h>\<close> that the header
  and the system calls use, with their values on Darwin (the header imports Foundation
  and uses \<open>SO_NOSIGPIPE\<close>, which only Darwin and the BSDs have). The theorems about
  all runs depend on these values only through \<open>F_GETFL \<noteq> F_SETFL\<close>; the runs on
  the example states compute with them.
\<close>

definition F_GETFL :: int where "F_GETFL = 3"
definition F_SETFL :: int where "F_SETFL = 4"
definition O_RDWR :: int where "O_RDWR = 2"
definition O_NONBLOCK :: int where "O_NONBLOCK = 4"
definition SOL_SOCKET :: int where "SOL_SOCKET = 65535"
definition SO_REUSEADDR :: int where "SO_REUSEADDR = 4"
definition SO_NOSIGPIPE :: int where "SO_NOSIGPIPE = 4130"
definition EBADF :: int where "EBADF = 9"
definition EINVAL :: int where "EINVAL = 22"
definition EMFILE :: int where "EMFILE = 24"

definition next_outcome :: "os_state \<Rightarrow> outcome \<times> os_state" where
  "next_outcome s =
     (case script s of
        [] \<Rightarrow> (Proceed, s)
      | out # rest \<Rightarrow> (out, s\<lparr>script := rest\<rparr>))"

definition sys_return :: "syscall \<Rightarrow> int \<Rightarrow> os_state \<Rightarrow> int \<times> os_state" where
  "sys_return c r s = (r, s\<lparr>trace := trace s @ [(c, r)]\<rparr>)"

definition sys_fail :: "syscall \<Rightarrow> int \<Rightarrow> os_state \<Rightarrow> int \<times> os_state" where
  "sys_fail c e s = sys_return c (- 1) (s\<lparr>errno := e\<rparr>)"

text \<open>
  \<open>socket(domain, type, protocol)\<close>: fails with the scripted error code, or with
  \<open>EMFILE\<close> when the table is full; otherwise opens the lowest free descriptor, with the
  flag word the kernel gives a new socket (\<open>sock_fl\<close>) and no option set. A combination of
  domain, type and protocol that the system does not support is a scripted failure.
\<close>

definition socket :: "int \<Rightarrow> int \<Rightarrow> int \<Rightarrow> os_state \<Rightarrow> int \<times> os_state" where
  "socket domain type protocol s =
     (let c = Sys_socket domain type protocol;
          (out, s1) = next_outcome s
      in case out of
           Fail e \<Rightarrow> sys_fail c e s1
         | Proceed \<Rightarrow>
             (case List.find (\<lambda>fd. fdtab s1 fd = None) (map int [0..<nofile s1]) of
                None \<Rightarrow> sys_fail c EMFILE s1
              | Some fd \<Rightarrow>
                  sys_return c fd
                    (s1\<lparr>fdtab := (fdtab s1)(fd \<mapsto> \<lparr>fl = sock_fl s1, sockopts = Map.empty\<rparr>)\<rparr>)))"

text \<open>
  \<open>fcntl(fd, cmd)\<close> and \<open>fcntl(fd, cmd, arg)\<close>: the function is variadic, the third
  argument is \<open>None\<close> when the caller passes none. \<open>F_GETFL\<close> returns the flag word of
  the descriptor. \<open>F_SETFL\<close> takes the bits of \<open>setfl_mask\<close> from its argument, keeps
  the other bits of the word (the access mode) as they are, and returns 0; a kernel that
  rejects an argument is a scripted failure. Other commands are outside the model and are
  answered with \<open>EINVAL\<close>, as is \<open>F_SETFL\<close> without an argument. A failing call
  changes nothing but \<open>errno\<close>.
\<close>

definition fcntl :: "int \<Rightarrow> int \<Rightarrow> int option \<Rightarrow> os_state \<Rightarrow> int \<times> os_state" where
  "fcntl fd cmd arg s =
     (let c = Sys_fcntl fd cmd arg;
          (out, s1) = next_outcome s
      in case out of
           Fail e \<Rightarrow> sys_fail c e s1
         | Proceed \<Rightarrow>
             (case fdtab s1 fd of
                None \<Rightarrow> sys_fail c EBADF s1
              | Some d \<Rightarrow>
                  if cmd = F_GETFL then sys_return c (fl d) s1
                  else if cmd = F_SETFL then
                    (case arg of
                       None \<Rightarrow> sys_fail c EINVAL s1
                     | Some v \<Rightarrow>
                         sys_return c 0
                           (s1\<lparr>fdtab := (fdtab s1)
                                  (fd \<mapsto> d\<lparr>fl := (fl d AND NOT (setfl_mask s1)) OR
                                                  (v AND setfl_mask s1)\<rparr>)\<rparr>))
                  else sys_fail c EINVAL s1))"

text \<open>
  \<open>close(fd)\<close>: \<open>EBADF\<close> when the descriptor is not open. An open descriptor is
  released in every case, also when the call reports a (scripted) error, as Darwin and
  Linux do.
\<close>

definition close :: "int \<Rightarrow> os_state \<Rightarrow> int \<times> os_state" where
  "close fd s =
     (let c = Sys_close fd;
          (out, s1) = next_outcome s
      in case fdtab s1 fd of
           None \<Rightarrow> sys_fail c EBADF s1
         | Some d \<Rightarrow>
             (let s2 = s1\<lparr>fdtab := (fdtab s1)(fd := None)\<rparr>
              in case out of
                   Fail e \<Rightarrow> sys_fail c e s2
                 | Proceed \<Rightarrow> sys_return c 0 s2))"

text \<open>
  \<open>setsockopt(fd, level, name, &val, sizeof(val))\<close> for an \<open>int\<close> option value: the
  model passes the value itself. An option the system does not know is a scripted
  failure.
\<close>

definition setsockopt :: "int \<Rightarrow> int \<Rightarrow> int \<Rightarrow> int \<Rightarrow> os_state \<Rightarrow> int \<times> os_state" where
  "setsockopt fd level name val s =
     (let c = Sys_setsockopt fd level name val;
          (out, s1) = next_outcome s
      in case out of
           Fail e \<Rightarrow> sys_fail c e s1
         | Proceed \<Rightarrow>
             (case fdtab s1 fd of
                None \<Rightarrow> sys_fail c EBADF s1
              | Some d \<Rightarrow>
                  sys_return c 0
                    (s1\<lparr>fdtab := (fdtab s1)
                           (fd \<mapsto> d\<lparr>sockopts := (sockopts d)((level, name) \<mapsto> val)\<rparr>)\<rparr>)))"

section \<open>The functions of \<open>BinarySpec.h\<close>\<close>

text \<open>
  \<^verbatim>\<open>
  static inline int BinarySpec_createNonBlockingSocket(int family, int type) {
      int sck = socket(family, type, 0);
      if (sck < 0) { return -1; }
      int res = fcntl(sck, F_SETFL, O_NONBLOCK | fcntl(sck, F_GETFL));
      if (res < 0) { close(sck); return -1; }
      int yes = 1;
      setsockopt(sck, SOL_SOCKET, SO_REUSEADDR, &yes, sizeof(yes));
      setsockopt(sck, SOL_SOCKET, SO_NOSIGPIPE, &yes, sizeof(yes));
      return sck;
  }
  \<close>
  The inner \<open>fcntl(sck, F_GETFL)\<close> is an argument of the outer call, so it runs first;
  its result is used unchecked.
\<close>

definition BinarySpec_createNonBlockingSocket :: "int \<Rightarrow> int \<Rightarrow> os_state \<Rightarrow> int \<times> os_state" where
  "BinarySpec_createNonBlockingSocket family type s0 =
     (let (sck, s1) = socket family type 0 s0
      in if sck < 0 then (- 1, s1)
         else
           let (flags, s2) = fcntl sck F_GETFL None s1;
               (res, s3) = fcntl sck F_SETFL (Some (O_NONBLOCK OR flags)) s2
           in if res < 0 then
                (let (closed, s4) = close sck s3 in (- 1, s4))
              else
                let yes = 1;
                    (r1, s4) = setsockopt sck SOL_SOCKET SO_REUSEADDR yes s3;
                    (r2, s5) = setsockopt sck SOL_SOCKET SO_NOSIGPIPE yes s4
                in (sck, s5))"

text \<open>
  \<^verbatim>\<open>
  static inline int fcntl0(int fd, int option) { return fcntl(fd, option); }
  static inline int fcntl1(int fd, int option, int value) { return fcntl(fd, option, value); }
  \<close>
\<close>

definition fcntl0 :: "int \<Rightarrow> int \<Rightarrow> os_state \<Rightarrow> int \<times> os_state" where
  "fcntl0 fd option s = fcntl fd option None s"

definition fcntl1 :: "int \<Rightarrow> int \<Rightarrow> int \<Rightarrow> os_state \<Rightarrow> int \<times> os_state" where
  "fcntl1 fd option val s = fcntl fd option (Some val) s"

section \<open>Example system states\<close>

text \<open>
  A process with the three standard descriptors open and room for eight, on which every
  system call proceeds: a new socket has the flag word \<open>O_RDWR\<close> (2), and \<open>F_SETFL\<close>
  can change \<open>O_NONBLOCK\<close> (4), \<open>O_APPEND\<close> (8) and \<open>O_ASYNC\<close> (64). Then the same
  process with a script of failures, a process whose descriptor table is full, and a
  kernel whose new sockets have \<open>O_APPEND\<close> set as well.
\<close>

definition stdio :: fd_entry where
  "stdio = \<lparr>fl = O_RDWR, sockopts = Map.empty\<rparr>"

definition healthy :: os_state where
  "healthy =
     \<lparr>fdtab = [0 \<mapsto> stdio, 1 \<mapsto> stdio, 2 \<mapsto> stdio],
      nofile = 8, sock_fl = O_RDWR, setfl_mask = 76, errno = 0, script = [], trace = []\<rparr>"

definition scripted :: "outcome list \<Rightarrow> os_state" where
  "scripted outs = healthy\<lparr>script := outs\<rparr>"

definition exhausted :: os_state where
  "exhausted = healthy\<lparr>nofile := 3\<rparr>"

definition appending :: os_state where
  "appending = healthy\<lparr>sock_fl := 10\<rparr>"

section \<open>States that differ only in \<open>errno\<close> and the trace\<close>

text \<open>
  Two system states are the same kernel when they agree on the descriptor table, the
  kernel's parameters and the script; they may differ in \<open>errno\<close> and in the trace.
\<close>

definition same_kernel :: "os_state \<Rightarrow> os_state \<Rightarrow> bool" where
  "same_kernel s t \<longleftrightarrow>
     fdtab s = fdtab t \<and> nofile s = nofile t \<and> sock_fl s = sock_fl t \<and>
     setfl_mask s = setfl_mask t \<and> script s = script t"

section \<open>What each system call does to the descriptor table and the trace\<close>

lemma next_outcome_frame:
  "next_outcome s = (out, s1) \<Longrightarrow>
     fdtab s1 = fdtab s \<and> nofile s1 = nofile s \<and> sock_fl s1 = sock_fl s \<and>
     setfl_mask s1 = setfl_mask s \<and> errno s1 = errno s \<and> trace s1 = trace s"
  by (auto simp: next_outcome_def split: list.splits)

lemma find_free_fd:
  "List.find (\<lambda>fd. tab fd = None) (map int [0..<n]) = Some fd \<Longrightarrow> 0 \<le> fd \<and> tab fd = None"
  by (auto simp: find_Some_iff)

lemma socket_result:
  assumes "socket d t p s = (r, s')"
  shows "(r = - 1 \<and> fdtab s' = fdtab s) \<or>
         (0 \<le> r \<and> fdtab s r = None \<and>
          fdtab s' = (fdtab s)(r \<mapsto> \<lparr>fl = sock_fl s, sockopts = Map.empty\<rparr>))"
  using assms
  by (auto simp: socket_def sys_fail_def sys_return_def Let_def
           dest!: next_outcome_frame find_free_fd
           split: prod.splits outcome.splits option.splits)

lemma socket_params:
  "socket d t p s = (r, s') \<Longrightarrow> sock_fl s' = sock_fl s \<and> setfl_mask s' = setfl_mask s"
  by (auto simp: socket_def sys_fail_def sys_return_def Let_def
           dest!: next_outcome_frame
           split: prod.splits outcome.splits option.splits)

lemma fcntl_params:
  "fcntl fd cmd arg s = (r, s') \<Longrightarrow> sock_fl s' = sock_fl s \<and> setfl_mask s' = setfl_mask s"
  by (auto simp: fcntl_def sys_fail_def sys_return_def Let_def
           dest!: next_outcome_frame
           split: prod.splits outcome.splits option.splits if_splits)

lemma socket_trace:
  "socket d t p s = (r, s') \<Longrightarrow> trace s' = trace s @ [(Sys_socket d t p, r)]"
  by (auto simp: socket_def sys_fail_def sys_return_def Let_def
           dest!: next_outcome_frame
           split: prod.splits outcome.splits option.splits)

lemma fcntl_trace:
  "fcntl fd cmd arg s = (r, s') \<Longrightarrow> trace s' = trace s @ [(Sys_fcntl fd cmd arg, r)]"
  by (auto simp: fcntl_def sys_fail_def sys_return_def Let_def
           dest!: next_outcome_frame
           split: prod.splits outcome.splits option.splits if_splits)

lemma fcntl_getfl:
  assumes "fcntl fd F_GETFL None s = (r, s')"
  shows "fdtab s' = fdtab s \<and> (r = - 1 \<or> (\<exists>d. fdtab s fd = Some d \<and> r = fl d))"
  using assms
  by (auto simp: fcntl_def sys_fail_def sys_return_def Let_def
           dest!: next_outcome_frame
           split: prod.splits outcome.splits option.splits if_splits)

lemma fcntl_setfl:
  assumes "fcntl fd F_SETFL (Some v) s = (r, s')"
  shows "(r = - 1 \<and> fdtab s' = fdtab s) \<or>
         (r = 0 \<and> (\<exists>d. fdtab s fd = Some d \<and>
            fdtab s' = (fdtab s)
              (fd \<mapsto> d\<lparr>fl := (fl d AND NOT (setfl_mask s)) OR (v AND setfl_mask s)\<rparr>)))"
  using assms
  by (auto simp: fcntl_def sys_fail_def sys_return_def Let_def F_GETFL_def F_SETFL_def
           dest!: next_outcome_frame
           split: prod.splits outcome.splits option.splits if_splits)

lemma close_result:
  assumes "close fd s = (r, s')"
  shows "fdtab s' = (fdtab s)(fd := None) \<and> trace s' = trace s @ [(Sys_close fd, r)]"
  using assms
  by (auto simp: close_def sys_fail_def sys_return_def Let_def
           dest!: next_outcome_frame
           split: prod.splits outcome.splits option.splits if_splits)

lemma setsockopt_result:
  assumes "setsockopt fd level name v s = (r, s')"
  shows "(r = - 1 \<and> fdtab s' = fdtab s) \<or>
         (r = 0 \<and> (\<exists>d. fdtab s fd = Some d \<and>
            fdtab s' = (fdtab s)(fd \<mapsto> d\<lparr>sockopts := (sockopts d)((level, name) \<mapsto> v)\<rparr>)))"
  using assms
  by (auto simp: setsockopt_def sys_fail_def sys_return_def Let_def
           dest!: next_outcome_frame
           split: prod.splits outcome.splits option.splits if_splits)

lemma setsockopt_trace:
  "setsockopt fd level name v s = (r, s') \<Longrightarrow>
     trace s' = trace s @ [(Sys_setsockopt fd level name v, r)]"
  by (auto simp: setsockopt_def sys_fail_def sys_return_def Let_def
           dest!: next_outcome_frame
           split: prod.splits outcome.splits option.splits if_splits)

lemma create_cases:
  assumes "BinarySpec_createNonBlockingSocket family type s = (r, s')"
  obtains
    (creation_failed) sck where
      "socket family type 0 s = (sck, s')" "sck < 0" "r = - 1"
  | (configuration_failed) sck s1 flags s2 res s3 c where
      "socket family type 0 s = (sck, s1)" "0 \<le> sck"
      "fcntl sck F_GETFL None s1 = (flags, s2)"
      "fcntl sck F_SETFL (Some (O_NONBLOCK OR flags)) s2 = (res, s3)" "res < 0"
      "close sck s3 = (c, s')" "r = - 1"
  | (configured) sck s1 flags s2 res s3 r1 s4 r2 where
      "socket family type 0 s = (sck, s1)" "0 \<le> sck"
      "fcntl sck F_GETFL None s1 = (flags, s2)"
      "fcntl sck F_SETFL (Some (O_NONBLOCK OR flags)) s2 = (res, s3)" "0 \<le> res"
      "setsockopt sck SOL_SOCKET SO_REUSEADDR 1 s3 = (r1, s4)"
      "setsockopt sck SOL_SOCKET SO_NOSIGPIPE 1 s4 = (r2, s')" "r = sck"
  using assms
  unfolding BinarySpec_createNonBlockingSocket_def Let_def
  by (auto split: prod.splits if_splits)

lemma configured_table:
  assumes "socket family type 0 s = (sck, s1)" "0 \<le> sck"
    and "fcntl sck F_GETFL None s1 = (flags, s2)"
    and "fcntl sck F_SETFL (Some v) s2 = (res, s3)" "0 \<le> res"
    and "setsockopt sck l1 n1 v1 s3 = (r1, s4)"
    and "setsockopt sck l2 n2 v2 s4 = (r2, s5)"
  shows "fdtab s sck = None"
    and "fdtab s1 = (fdtab s)(sck \<mapsto> \<lparr>fl = sock_fl s, sockopts = Map.empty\<rparr>)"
    and "flags = - 1 \<or> flags = sock_fl s"
    and "res = 0"
    and "\<exists>d. fdtab s5 = (fdtab s)(sck \<mapsto> d) \<and>
           fl d = (sock_fl s AND NOT (setfl_mask s)) OR (v AND setfl_mask s)"
proof -
  from socket_result [OF assms(1)] assms(2)
  show free: "fdtab s sck = None"
    and t1: "fdtab s1 = (fdtab s)(sck \<mapsto> \<lparr>fl = sock_fl s, sockopts = Map.empty\<rparr>)"
    by auto
  from fcntl_getfl [OF assms(3)] t1
  have t2: "fdtab s2 = fdtab s1" and fl: "flags = - 1 \<or> flags = sock_fl s"
    by auto
  from fl show "flags = - 1 \<or> flags = sock_fl s" .
  from socket_params [OF assms(1)] fcntl_params [OF assms(3)]
  have mask: "setfl_mask s2 = setfl_mask s"
    by simp
  from fcntl_setfl [OF assms(4)] assms(5)
  show "res = 0" by auto
  from fcntl_setfl [OF assms(4)] assms(5) t1 t2 mask
  obtain d3 where t3: "fdtab s3 = (fdtab s)(sck \<mapsto> d3)"
    "fl d3 = (sock_fl s AND NOT (setfl_mask s)) OR (v AND setfl_mask s)"
    by auto
  from setsockopt_result [OF assms(6)] t3
  obtain d4 where t4: "fdtab s4 = (fdtab s)(sck \<mapsto> d4)"
    "fl d4 = (sock_fl s AND NOT (setfl_mask s)) OR (v AND setfl_mask s)"
    by auto
  from setsockopt_result [OF assms(7)] t4
  show "\<exists>d. fdtab s5 = (fdtab s)(sck \<mapsto> d) \<and>
          fl d = (sock_fl s AND NOT (setfl_mask s)) OR (v AND setfl_mask s)"
    by auto
qed

text \<open>The definitions that a run on a concrete system state unfolds.\<close>

lemmas run_simps =
  BinarySpec_createNonBlockingSocket_def socket_def fcntl_def close_def setsockopt_def
  next_outcome_def sys_return_def sys_fail_def
  healthy_def scripted_def exhausted_def appending_def stdio_def upt_rec
  F_GETFL_def F_SETFL_def O_RDWR_def

lemma or_and_absorb_int: "(a OR b) AND a = (a::int)"
  by (auto simp: bit_eq_iff bit_and_iff bit_or_iff)

lemma and_or_absorb_int: "b AND (a OR b) = (b::int)"
  by (auto simp: bit_eq_iff bit_and_iff bit_or_iff)

lemma mask_merge_int:
  assumes "n AND m = (n::int)"
  shows "(x AND NOT m) OR ((n OR x) AND m) = n OR x"
proof -
  from assms have "bit n i \<Longrightarrow> bit m i" for i
    by (metis bit_and_iff)
  then show ?thesis
    by (auto simp: bit_eq_iff bit_and_iff bit_or_iff bit_not_iff)
qed

lemma mask_all_int: "(x AND NOT m) OR (- 1 AND m) = x OR (m::int)"
  by (auto simp: bit_eq_iff bit_and_iff bit_or_iff bit_not_iff)

lemma close_errno:
  "close fd s = (0, s') \<Longrightarrow> errno s' = errno s"
  by (auto simp: close_def sys_fail_def sys_return_def next_outcome_def Let_def
           split: prod.splits outcome.splits option.splits list.splits)

lemma configured_trace:
  assumes "socket family type p s = (sck, s1)"
    and "fcntl sck c1 a1 s1 = (flags, s2)"
    and "fcntl sck c2 a2 s2 = (res, s3)"
    and "setsockopt sck l1 n1 v1 s3 = (r1, s4)"
    and "setsockopt sck l2 n2 v2 s4 = (r2, s5)"
  shows "trace s5 = trace s @
           [(Sys_socket family type p, sck), (Sys_fcntl sck c1 a1, flags),
            (Sys_fcntl sck c2 a2, res), (Sys_setsockopt sck l1 n1 v1, r1),
            (Sys_setsockopt sck l2 n2 v2, r2)]"
  using socket_trace [OF assms(1)] fcntl_trace [OF assms(2)] fcntl_trace [OF assms(3)]
    setsockopt_trace [OF assms(4)] setsockopt_trace [OF assms(5)]
  by simp

lemma create_frame:
  assumes "BinarySpec_createNonBlockingSocket family type s = (r, s')"
  shows "(r = - 1 \<and> fdtab s' = fdtab s) \<or>
         (0 \<le> r \<and> fdtab s r = None \<and> fdtab s' r \<noteq> None \<and>
          (\<forall>fd. fd \<noteq> r \<longrightarrow> fdtab s' fd = fdtab s fd))"
  using assms
proof (cases rule: create_cases)
  case (creation_failed sck)
  with socket_result [of family type 0 s sck s'] show ?thesis by auto
next
  case (configuration_failed sck s1 flags s2 res s3 c)
  from socket_result [OF configuration_failed(1)] configuration_failed(2)
  have "fdtab s sck = None"
    and "fdtab s1 = (fdtab s)(sck \<mapsto> \<lparr>fl = sock_fl s, sockopts = Map.empty\<rparr>)"
    by auto
  moreover from fcntl_getfl [OF configuration_failed(3)]
  have "fdtab s2 = fdtab s1" by simp
  moreover from fcntl_setfl [OF configuration_failed(4)] configuration_failed(5)
  have "fdtab s3 = fdtab s2" by auto
  moreover from close_result [OF configuration_failed(6)]
  have "fdtab s' = (fdtab s3)(sck := None)" by simp
  ultimately have "fdtab s' = fdtab s" by auto
  with configuration_failed(7) show ?thesis by simp
next
  case (configured sck s1 flags s2 res s3 r1 s4 r2)
  from configured_table [OF configured(1-7)] configured(2,8)
  show ?thesis by auto
qed

lemma socket_errno:
  assumes "socket domain type protocol s = (r, s')" and "r < 0"
  shows "errno s' = (case script s of Fail e # rest \<Rightarrow> e | _ \<Rightarrow> EMFILE)"
  using assms
  by (auto simp: socket_def sys_fail_def sys_return_def next_outcome_def Let_def
           dest!: find_free_fd
           split: prod.splits outcome.splits option.splits list.splits)

text \<open>
  No system call reads \<open>errno\<close> or the trace: on the same kernel each returns the same
  result and leaves the same kernel, and so does the function.
\<close>

lemma socket_same:
  "same_kernel s t \<Longrightarrow>
     fst (socket d ty p s) = fst (socket d ty p t) \<and>
     same_kernel (snd (socket d ty p s)) (snd (socket d ty p t))"
  by (auto simp: same_kernel_def socket_def sys_fail_def sys_return_def next_outcome_def Let_def
           split: prod.splits outcome.splits option.splits list.splits)

lemma fcntl_same:
  "same_kernel s t \<Longrightarrow>
     fst (fcntl fd c a s) = fst (fcntl fd c a t) \<and>
     same_kernel (snd (fcntl fd c a s)) (snd (fcntl fd c a t))"
  by (auto simp: same_kernel_def fcntl_def sys_fail_def sys_return_def next_outcome_def Let_def
           split: prod.splits outcome.splits option.splits list.splits)

lemma close_same:
  "same_kernel s t \<Longrightarrow>
     fst (close fd s) = fst (close fd t) \<and>
     same_kernel (snd (close fd s)) (snd (close fd t))"
  by (auto simp: same_kernel_def close_def sys_fail_def sys_return_def next_outcome_def Let_def
           split: prod.splits outcome.splits option.splits list.splits)

lemma setsockopt_same:
  "same_kernel s t \<Longrightarrow>
     fst (setsockopt fd l n v s) = fst (setsockopt fd l n v t) \<and>
     same_kernel (snd (setsockopt fd l n v s)) (snd (setsockopt fd l n v t))"
  by (auto simp: same_kernel_def setsockopt_def sys_fail_def sys_return_def next_outcome_def Let_def
           split: prod.splits outcome.splits option.splits list.splits)

lemma create_same:
  assumes "same_kernel s t"
  shows "fst (BinarySpec_createNonBlockingSocket family type s) =
           fst (BinarySpec_createNonBlockingSocket family type t) \<and>
         same_kernel (snd (BinarySpec_createNonBlockingSocket family type s))
           (snd (BinarySpec_createNonBlockingSocket family type t))"
proof -
  obtain sck s1 where a: "socket family type 0 s = (sck, s1)"
    by (cases "socket family type 0 s")
  obtain sck' t1 where a': "socket family type 0 t = (sck', t1)"
    by (cases "socket family type 0 t")
  from socket_same [OF assms, of family type 0] a a'
  have 1: "sck' = sck" "same_kernel s1 t1" by simp_all
  obtain flags s2 where b: "fcntl sck F_GETFL None s1 = (flags, s2)"
    by (cases "fcntl sck F_GETFL None s1")
  obtain flags' t2 where b': "fcntl sck F_GETFL None t1 = (flags', t2)"
    by (cases "fcntl sck F_GETFL None t1")
  from fcntl_same [OF 1(2), of sck F_GETFL None] b b'
  have 2: "flags' = flags" "same_kernel s2 t2" by simp_all
  obtain res s3 where c: "fcntl sck F_SETFL (Some (O_NONBLOCK OR flags)) s2 = (res, s3)"
    by (cases "fcntl sck F_SETFL (Some (O_NONBLOCK OR flags)) s2")
  obtain res' t3 where c': "fcntl sck F_SETFL (Some (O_NONBLOCK OR flags)) t2 = (res', t3)"
    by (cases "fcntl sck F_SETFL (Some (O_NONBLOCK OR flags)) t2")
  from fcntl_same [OF 2(2), of sck F_SETFL "Some (O_NONBLOCK OR flags)"] c c'
  have 3: "res' = res" "same_kernel s3 t3" by simp_all
  obtain r1 s4 where d: "setsockopt sck SOL_SOCKET SO_REUSEADDR 1 s3 = (r1, s4)"
    by (cases "setsockopt sck SOL_SOCKET SO_REUSEADDR 1 s3")
  obtain r1' t4 where d': "setsockopt sck SOL_SOCKET SO_REUSEADDR 1 t3 = (r1', t4)"
    by (cases "setsockopt sck SOL_SOCKET SO_REUSEADDR 1 t3")
  from setsockopt_same [OF 3(2), of sck SOL_SOCKET SO_REUSEADDR 1] d d'
  have 4: "same_kernel s4 t4" by simp
  note 5 = setsockopt_same [OF 4, of sck SOL_SOCKET SO_NOSIGPIPE 1]
  note 6 = close_same [OF 3(2), of sck]
  from a a' b b' c c' d d' 1 2 3 4 5 6 show ?thesis
    by (auto simp: BinarySpec_createNonBlockingSocket_def split: prod.splits)
qed

section \<open>Failure of the socket call\<close>

text \<open>
  C7: for every family, type and system state, if the \<open>socket\<close> call fails (whatever
  the reason: an unsupported family or type, a full descriptor table, any scripted
  error), the function returns \<open>-1\<close> at once, in the state the failed \<open>socket\<close> call
  left: the descriptor table is the one before the call, and the only system call made
  is that \<open>socket\<close> call, so there is no \<open>close\<close> and no further call.
\<close>

theorem C7_creation_failure_is_immediate:
  assumes "fst (socket family type 0 s) < 0"
  shows "BinarySpec_createNonBlockingSocket family type s = (- 1, snd (socket family type 0 s)) \<and>
         fdtab (snd (BinarySpec_createNonBlockingSocket family type s)) = fdtab s \<and>
         trace (snd (BinarySpec_createNonBlockingSocket family type s)) =
           trace s @ [(Sys_socket family type 0, - 1)]"
proof -
  obtain sck s1 where sock: "socket family type 0 s = (sck, s1)"
    by (cases "socket family type 0 s")
  with assms have neg: "sck < 0" by simp
  from sock neg have run: "BinarySpec_createNonBlockingSocket family type s = (- 1, s1)"
    by (simp add: BinarySpec_createNonBlockingSocket_def)
  from socket_result [OF sock] neg have "sck = - 1" and "fdtab s1 = fdtab s"
    by auto
  with socket_trace [OF sock] run sock show ?thesis
    by simp
qed

text \<open>
  An unsupported address family (99) rejected by the system with \<open>EAFNOSUPPORT\<close> (47).
\<close>

theorem C7_witness:
  "fst (socket 99 1 0 (scripted [Fail 47])) < 0 \<and>
   fst (BinarySpec_createNonBlockingSocket 99 1 (scripted [Fail 47])) = - 1 \<and>
   errno (snd (BinarySpec_createNonBlockingSocket 99 1 (scripted [Fail 47]))) = 47 \<and>
   fdtab (snd (BinarySpec_createNonBlockingSocket 99 1 (scripted [Fail 47]))) =
     fdtab (scripted [Fail 47]) \<and>
   trace (snd (BinarySpec_createNonBlockingSocket 99 1 (scripted [Fail 47]))) =
     [(Sys_socket 99 1 0, - 1)]"
proof -
  let ?s = "scripted [Fail 47]"
  have h: "fst (socket 99 1 0 ?s) < 0"
    by (simp add: run_simps)
  have e: "errno (snd (socket 99 1 0 ?s)) = 47" and t: "trace ?s = []"
    by (simp_all add: run_simps)
  note C7_creation_failure_is_immediate [OF h]
  then have "BinarySpec_createNonBlockingSocket 99 1 ?s = (- 1, snd (socket 99 1 0 ?s))"
    and "fdtab (snd (BinarySpec_createNonBlockingSocket 99 1 ?s)) = fdtab ?s"
    and "trace (snd (BinarySpec_createNonBlockingSocket 99 1 ?s)) =
           trace ?s @ [(Sys_socket 99 1 0, - 1)]"
    by blast+
  with h e t show ?thesis
    by simp
qed

text \<open>
  C10: for every family, type and system state, the first system call of the function is
  \<open>socket(family, type, 0)\<close>, with the protocol argument 0, and no other \<open>socket\<close>
  call follows; the function has no parameter for a protocol.
\<close>

theorem C10_default_protocol:
  "\<exists>sck rest.
     trace (snd (BinarySpec_createNonBlockingSocket family type s)) =
       trace s @ (Sys_socket family type 0, sck) # rest \<and>
     (\<forall>d t p r. (Sys_socket d t p, r) \<notin> set rest)"
proof -
  obtain r s' where run: "BinarySpec_createNonBlockingSocket family type s = (r, s')"
    by (cases "BinarySpec_createNonBlockingSocket family type s")
  have "\<exists>sck rest. trace s' = trace s @ (Sys_socket family type 0, sck) # rest \<and>
          (\<forall>d t p r. (Sys_socket d t p, r) \<notin> set rest)"
    using run
  proof (cases rule: create_cases)
    case (creation_failed sck)
    from socket_trace [OF creation_failed(1)] show ?thesis by simp
  next
    case (configuration_failed sck s1 flags s2 res s3 c)
    from socket_trace [OF configuration_failed(1)] fcntl_trace [OF configuration_failed(3)]
      fcntl_trace [OF configuration_failed(4)] close_result [OF configuration_failed(6)]
    show ?thesis by simp
  next
    case (configured sck s1 flags s2 res s3 r1 s4 r2)
    from socket_trace [OF configured(1)] fcntl_trace [OF configured(3)]
      fcntl_trace [OF configured(4)] setsockopt_trace [OF configured(6)]
      setsockopt_trace [OF configured(7)]
    show ?thesis by simp
  qed
  with run show ?thesis by simp
qed

section \<open>No descriptor leak on failure\<close>

text \<open>
  C1: for every run that returns an error (a negative value), the descriptor table after
  the call is the table before it, so the call leaves no descriptor of its own open and
  the number of open descriptors is unchanged; and if the \<open>socket\<close> call had created a descriptor, the
  last system call of the run is the \<open>close\<close> of that descriptor.
\<close>

theorem C1_no_descriptor_leak_on_error:
  assumes "fst (BinarySpec_createNonBlockingSocket family type s) < 0"
  shows "fdtab (snd (BinarySpec_createNonBlockingSocket family type s)) = fdtab s \<and>
         card (dom (fdtab (snd (BinarySpec_createNonBlockingSocket family type s)))) =
           card (dom (fdtab s)) \<and>
         (0 \<le> fst (socket family type 0 s) \<longrightarrow>
            (\<exists>c. last (trace (snd (BinarySpec_createNonBlockingSocket family type s))) =
                   (Sys_close (fst (socket family type 0 s)), c)))"
proof -
  obtain r s' where run: "BinarySpec_createNonBlockingSocket family type s = (r, s')"
    by (cases "BinarySpec_createNonBlockingSocket family type s")
  from assms run have neg: "r < 0" by simp
  have "fdtab s' = fdtab s \<and>
        (0 \<le> fst (socket family type 0 s) \<longrightarrow>
           (\<exists>c. last (trace s') = (Sys_close (fst (socket family type 0 s)), c)))"
    using run
  proof (cases rule: create_cases)
    case (creation_failed sck)
    with socket_result [of family type 0 s sck s'] show ?thesis by auto
  next
    case (configuration_failed sck s1 flags s2 res s3 c)
    from socket_result [OF configuration_failed(1)] configuration_failed(2)
    have "fdtab s sck = None"
      and "fdtab s1 = (fdtab s)(sck \<mapsto> \<lparr>fl = sock_fl s, sockopts = Map.empty\<rparr>)"
      by auto
    moreover from fcntl_getfl [OF configuration_failed(3)]
    have "fdtab s2 = fdtab s1" by simp
    moreover from fcntl_setfl [OF configuration_failed(4)] configuration_failed(5)
    have "fdtab s3 = fdtab s2" by auto
    moreover from close_result [OF configuration_failed(6)]
    have "fdtab s' = (fdtab s3)(sck := None)" and "trace s' = trace s3 @ [(Sys_close sck, c)]"
      by simp_all
    ultimately show ?thesis
      using configuration_failed(1) by auto
  next
    case (configured sck s1 flags s2 res s3 r1 s4 r2)
    with neg show ?thesis by simp
  qed
  with run show ?thesis by simp
qed

text \<open>
  The \<open>F_SETFL\<close> call fails with \<open>EINVAL\<close> (22) on the fresh descriptor 3.
\<close>

theorem C1_witness:
  "fst (BinarySpec_createNonBlockingSocket 2 1 (scripted [Proceed, Proceed, Fail 22])) < 0 \<and>
   fst (socket 2 1 0 (scripted [Proceed, Proceed, Fail 22])) = 3 \<and>
   fdtab (snd (BinarySpec_createNonBlockingSocket 2 1 (scripted [Proceed, Proceed, Fail 22]))) =
     fdtab (scripted [Proceed, Proceed, Fail 22]) \<and>
   fdtab (snd (BinarySpec_createNonBlockingSocket 2 1 (scripted [Proceed, Proceed, Fail 22]))) 3 = None \<and>
   (\<exists>c. last (trace (snd (BinarySpec_createNonBlockingSocket 2 1
                           (scripted [Proceed, Proceed, Fail 22])))) = (Sys_close 3, c))"
proof -
  let ?s = "scripted [Proceed, Proceed, Fail 22]"
  have h: "fst (BinarySpec_createNonBlockingSocket 2 1 ?s) < 0"
    by (simp add: run_simps)
  have sck: "fst (socket 2 1 0 ?s) = 3"
    by (simp add: run_simps)
  have free: "fdtab ?s 3 = None"
    by (simp add: run_simps)
  from C1_no_descriptor_leak_on_error [OF h] h sck free show ?thesis
    by simp
qed

section \<open>The non-blocking configuration\<close>

text \<open>
  When the \<open>socket\<close> call, the flag read and the flag write all succeed, on a kernel
  whose \<open>F_SETFL\<close> can change \<open>O_NONBLOCK\<close>: the value read is the flag word the
  kernel gave the new socket, and the final flag word of the returned descriptor is that
  word with \<open>O_NONBLOCK\<close> added, whatever that word is.
\<close>

lemma read_modify_write_when_read_succeeds:
  assumes "socket family type 0 s = (sck, s1)" and "0 \<le> sck"
    and "fcntl sck F_GETFL None s1 = (flags, s2)" and "flags \<noteq> - 1"
    and "fcntl sck F_SETFL (Some (O_NONBLOCK OR flags)) s2 = (res, s3)" and "0 \<le> res"
    and "O_NONBLOCK AND setfl_mask s = O_NONBLOCK"
  shows "fst (BinarySpec_createNonBlockingSocket family type s) = sck \<and>
         flags = sock_fl s \<and>
         fdtab s1 sck = Some \<lparr>fl = sock_fl s, sockopts = Map.empty\<rparr> \<and>
         (\<exists>final.
            fdtab (snd (BinarySpec_createNonBlockingSocket family type s)) sck = Some final \<and>
            fl final = O_NONBLOCK OR sock_fl s)"
proof -
  obtain r1 s4 where o1: "setsockopt sck SOL_SOCKET SO_REUSEADDR 1 s3 = (r1, s4)"
    by (cases "setsockopt sck SOL_SOCKET SO_REUSEADDR 1 s3")
  obtain r2 s5 where o2: "setsockopt sck SOL_SOCKET SO_NOSIGPIPE 1 s4 = (r2, s5)"
    by (cases "setsockopt sck SOL_SOCKET SO_NOSIGPIPE 1 s4")
  from assms(1-3,5,6) o1 o2
  have run: "BinarySpec_createNonBlockingSocket family type s = (sck, s5)"
    by (simp add: BinarySpec_createNonBlockingSocket_def)
  note tab = configured_table [OF assms(1-3,5,6) o1 o2]
  from tab(3) assms(4) have read: "flags = sock_fl s"
    by simp
  from tab(5) obtain d where d: "fdtab s5 = (fdtab s)(sck \<mapsto> d)"
    "fl d = (sock_fl s AND NOT (setfl_mask s)) OR ((O_NONBLOCK OR flags) AND setfl_mask s)"
    by auto
  from d(2) read mask_merge_int [OF assms(7)] have "fl d = O_NONBLOCK OR sock_fl s"
    by simp
  with run read tab(2) d(1) show ?thesis
    by simp
qed

text \<open>
  On the healthy system the new socket has the word 2 and ends with 6; on a kernel whose
  new sockets have \<open>O_APPEND\<close> as well (10) it ends with 14, the flag kept.
\<close>

lemma read_modify_write_examples:
  "map_option fl (fdtab (snd (BinarySpec_createNonBlockingSocket 2 1 healthy)) 3) = Some 6 \<and>
   map_option fl (fdtab (snd (BinarySpec_createNonBlockingSocket 2 1 appending)) 3) = Some 14"
  by (simp add: run_simps O_NONBLOCK_def)

text \<open>
  A returned descriptor (a return value other than \<open>-1\<close>) is non-negative, was not
  open before the call and is open after it, and the run is exactly five system calls,
  the third being the \<open>F_SETFL\<close> call on that descriptor, which returned 0. The result
  of the \<open>F_GETFL\<close> call is left open here: nothing in the function looks at it.
\<close>

lemma returned_descriptor_is_open:
  assumes "BinarySpec_createNonBlockingSocket family type s = (r, s')" and "r \<noteq> - 1"
  shows "0 \<le> r \<and> fdtab s r = None \<and> fdtab s' r \<noteq> None \<and>
         (\<exists>flags r1 r2. trace s' = trace s @
              [(Sys_socket family type 0, r), (Sys_fcntl r F_GETFL None, flags),
               (Sys_fcntl r F_SETFL (Some (O_NONBLOCK OR flags)), 0),
               (Sys_setsockopt r SOL_SOCKET SO_REUSEADDR 1, r1),
               (Sys_setsockopt r SOL_SOCKET SO_NOSIGPIPE 1, r2)])"
  using assms(1)
proof (cases rule: create_cases)
  case (creation_failed sck)
  with assms(2) show ?thesis by simp
next
  case (configuration_failed sck s1 flags s2 res s3 c)
  with assms(2) show ?thesis by simp
next
  case (configured sck s1 flags s2 res s3 r1 s4 r2)
  from configured_table(1,4,5) [OF configured(1-7)]
  have "fdtab s sck = None" and "res = 0" and "fdtab s' sck \<noteq> None"
    by auto
  moreover note configured_trace [OF configured(1,3,4,6,7)]
  ultimately show ?thesis
    using configured(2,8) by auto
qed

section \<open>The best-effort socket options\<close>

text \<open>
  C5: for every run in which the \<open>socket\<close> call and the \<open>F_SETFL\<close> call succeed,
  whatever the two \<open>setsockopt\<close> calls return (the script is arbitrary), the function
  returns the descriptor, the descriptor is open at the end, and after the \<open>F_SETFL\<close>
  call the run makes the two \<open>setsockopt\<close> calls and nothing else: no \<open>close\<close>.
\<close>

theorem C5_best_effort_options:
  assumes "socket family type 0 s = (sck, s1)" and "0 \<le> sck"
    and "fcntl sck F_GETFL None s1 = (flags, s2)"
    and "fcntl sck F_SETFL (Some (O_NONBLOCK OR flags)) s2 = (res, s3)" and "0 \<le> res"
  shows "fst (BinarySpec_createNonBlockingSocket family type s) = sck \<and>
         fdtab (snd (BinarySpec_createNonBlockingSocket family type s)) sck \<noteq> None \<and>
         (\<exists>r1 r2.
            trace (snd (BinarySpec_createNonBlockingSocket family type s)) =
              trace s3 @
              [(Sys_setsockopt sck SOL_SOCKET SO_REUSEADDR 1, r1),
               (Sys_setsockopt sck SOL_SOCKET SO_NOSIGPIPE 1, r2)])"
proof -
  obtain r1 s4 where o1: "setsockopt sck SOL_SOCKET SO_REUSEADDR 1 s3 = (r1, s4)"
    by (cases "setsockopt sck SOL_SOCKET SO_REUSEADDR 1 s3")
  obtain r2 s5 where o2: "setsockopt sck SOL_SOCKET SO_NOSIGPIPE 1 s4 = (r2, s5)"
    by (cases "setsockopt sck SOL_SOCKET SO_NOSIGPIPE 1 s4")
  from assms o1 o2 have run: "BinarySpec_createNonBlockingSocket family type s = (sck, s5)"
    by (simp add: BinarySpec_createNonBlockingSocket_def)
  from configured_table(5) [OF assms o1 o2] have "fdtab s5 sck \<noteq> None"
    by auto
  moreover from setsockopt_trace [OF o1] setsockopt_trace [OF o2]
  have "trace s5 = trace s3 @
          [(Sys_setsockopt sck SOL_SOCKET SO_REUSEADDR 1, r1),
           (Sys_setsockopt sck SOL_SOCKET SO_NOSIGPIPE 1, r2)]"
    by simp
  ultimately show ?thesis
    using run by simp
qed

text \<open>Both options are refused with \<open>ENOPROTOOPT\<close> (42).\<close>

theorem C5_witness:
  "fst (socket 2 1 0 (scripted [Proceed, Proceed, Proceed, Fail 42, Fail 42])) = 3 \<and>
   fst (BinarySpec_createNonBlockingSocket 2 1
          (scripted [Proceed, Proceed, Proceed, Fail 42, Fail 42])) = 3 \<and>
   fdtab (snd (BinarySpec_createNonBlockingSocket 2 1
          (scripted [Proceed, Proceed, Proceed, Fail 42, Fail 42]))) 3 \<noteq> None \<and>
   trace (snd (BinarySpec_createNonBlockingSocket 2 1
          (scripted [Proceed, Proceed, Proceed, Fail 42, Fail 42]))) =
     [(Sys_socket 2 1 0, 3), (Sys_fcntl 3 F_GETFL None, 2),
      (Sys_fcntl 3 F_SETFL (Some (O_NONBLOCK OR 2)), 0),
      (Sys_setsockopt 3 SOL_SOCKET SO_REUSEADDR 1, - 1),
      (Sys_setsockopt 3 SOL_SOCKET SO_NOSIGPIPE 1, - 1)]"
proof -
  let ?s = "scripted [Proceed, Proceed, Proceed, Fail 42, Fail 42]"
  let ?s1 = "snd (socket 2 1 0 ?s)"
  let ?s2 = "snd (fcntl 3 F_GETFL None ?s1)"
  let ?s3 = "snd (fcntl 3 F_SETFL (Some (O_NONBLOCK OR 2)) ?s2)"
  have sck: "fst (socket 2 1 0 ?s) = 3"
    by (simp add: run_simps)
  then have a: "socket 2 1 0 ?s = (3, ?s1)"
    by (simp add: prod_eq_iff)
  have "fst (fcntl 3 F_GETFL None ?s1) = 2"
    by (simp add: run_simps O_RDWR_def)
  then have b: "fcntl 3 F_GETFL None ?s1 = (2, ?s2)"
    by (simp add: prod_eq_iff)
  have "fst (fcntl 3 F_SETFL (Some (O_NONBLOCK OR 2)) ?s2) = 0"
    by (simp add: run_simps)
  then have c: "fcntl 3 F_SETFL (Some (O_NONBLOCK OR 2)) ?s2 = (0, ?s3)"
    by (simp add: prod_eq_iff)
  have t: "trace (snd (BinarySpec_createNonBlockingSocket 2 1 ?s)) =
     [(Sys_socket 2 1 0, 3), (Sys_fcntl 3 F_GETFL None, 2),
      (Sys_fcntl 3 F_SETFL (Some (O_NONBLOCK OR 2)), 0),
      (Sys_setsockopt 3 SOL_SOCKET SO_REUSEADDR 1, - 1),
      (Sys_setsockopt 3 SOL_SOCKET SO_NOSIGPIPE 1, - 1)]"
    by (simp add: run_simps O_RDWR_def)
  from C5_best_effort_options [OF a _ b c] sck t show ?thesis
    by simp
qed

section \<open>Failure of the flag read and of the flag write\<close>

text \<open>
  When the \<open>F_SETFL\<close> call fails, the function closes the descriptor and returns
  \<open>-1\<close>, leaving the descriptor table as it was before the call; \<open>errno\<close> is as the
  failed \<open>F_SETFL\<close> call left it when \<open>close\<close> returns 0.
\<close>

lemma flag_write_failure_closes:
  assumes "socket family type 0 s = (sck, s1)" and "0 \<le> sck"
    and "fcntl sck F_GETFL None s1 = (flags, s2)"
    and "fcntl sck F_SETFL (Some (O_NONBLOCK OR flags)) s2 = (res, s3)" and "res < 0"
  shows "BinarySpec_createNonBlockingSocket family type s = (- 1, snd (close sck s3)) \<and>
         fdtab s sck = None \<and>
         fdtab (snd (close sck s3)) = fdtab s \<and>
         trace (snd (close sck s3)) = trace s3 @ [(Sys_close sck, fst (close sck s3))] \<and>
         (fst (close sck s3) = 0 \<longrightarrow> errno (snd (close sck s3)) = errno s3)"
proof -
  obtain c s4 where cl: "close sck s3 = (c, s4)"
    by (cases "close sck s3")
  from assms cl have run: "BinarySpec_createNonBlockingSocket family type s = (- 1, s4)"
    by (simp add: BinarySpec_createNonBlockingSocket_def)
  from create_frame [OF run] have "fdtab s4 = fdtab s"
    by simp
  moreover from socket_result [OF assms(1)] assms(2) have "fdtab s sck = None"
    by auto
  moreover from close_errno [of sck s3 s4] cl have "c = 0 \<longrightarrow> errno s4 = errno s3"
    by simp
  ultimately show ?thesis
    using run cl close_result [OF cl] by simp
qed

text \<open>
  The result of the \<open>F_GETFL\<close> call is not checked. When it fails and the \<open>F_SETFL\<close>
  call then succeeds, the function has passed \<open>O_NONBLOCK OR -1 = -1\<close> to \<open>F_SETFL\<close>
  and returns the descriptor, which stays open, with every flag set that \<open>F_SETFL\<close>
  can change on this kernel.
\<close>

lemma flag_read_failure_returns_descriptor:
  assumes "socket family type 0 s = (sck, s1)" and "0 \<le> sck"
    and "fcntl sck F_GETFL None s1 = (- 1, s2)"
    and "fcntl sck F_SETFL (Some (O_NONBLOCK OR - 1)) s2 = (res, s3)" and "0 \<le> res"
  shows "fst (BinarySpec_createNonBlockingSocket family type s) = sck \<and>
         (\<exists>e. fdtab (snd (BinarySpec_createNonBlockingSocket family type s)) sck = Some e \<and>
              fl e = sock_fl s OR setfl_mask s)"
proof -
  obtain r1 s4 where o1: "setsockopt sck SOL_SOCKET SO_REUSEADDR 1 s3 = (r1, s4)"
    by (cases "setsockopt sck SOL_SOCKET SO_REUSEADDR 1 s3")
  obtain r2 s5 where o2: "setsockopt sck SOL_SOCKET SO_NOSIGPIPE 1 s4 = (r2, s5)"
    by (cases "setsockopt sck SOL_SOCKET SO_NOSIGPIPE 1 s4")
  from assms o1 o2 have run: "BinarySpec_createNonBlockingSocket family type s = (sck, s5)"
    by (simp add: BinarySpec_createNonBlockingSocket_def)
  from configured_table(5) [OF assms o1 o2]
  obtain d where "fdtab s5 = (fdtab s)(sck \<mapsto> d)"
    and "fl d = (sock_fl s AND NOT (setfl_mask s)) OR (- 1 AND setfl_mask s)"
    by auto
  with run show ?thesis
    by (simp only: mask_all_int) simp
qed

text \<open>
  C3, at a failing input: on the healthy system, with a script that lets \<open>socket\<close>
  proceed and fails the \<open>F_GETFL\<close> call with \<open>EBADF\<close> (9), the function calls
  \<open>F_SETFL\<close> with the argument \<open>-1\<close>, does not call \<open>close\<close>, and returns the
  descriptor 3, open (with the flag word 78 on this kernel: \<open>O_RDWR\<close> and every flag
  \<open>F_SETFL\<close> can change). The claim asks for the descriptor to be closed and an error
  returned.
\<close>

theorem C3_flag_read_failure_unchecked:
  "fst (socket 2 1 0 (scripted [Proceed, Fail 9])) = 3 \<and>
   fst (fcntl 3 F_GETFL None (snd (socket 2 1 0 (scripted [Proceed, Fail 9])))) = - 1 \<and>
   fst (BinarySpec_createNonBlockingSocket 2 1 (scripted [Proceed, Fail 9])) = 3 \<and>
   map_option fl
     (fdtab (snd (BinarySpec_createNonBlockingSocket 2 1 (scripted [Proceed, Fail 9]))) 3) =
     Some 78 \<and>
   trace (snd (BinarySpec_createNonBlockingSocket 2 1 (scripted [Proceed, Fail 9]))) =
     [(Sys_socket 2 1 0, 3), (Sys_fcntl 3 F_GETFL None, - 1),
      (Sys_fcntl 3 F_SETFL (Some (- 1)), 0),
      (Sys_setsockopt 3 SOL_SOCKET SO_REUSEADDR 1, 0),
      (Sys_setsockopt 3 SOL_SOCKET SO_NOSIGPIPE 1, 0)]"
  by (simp add: run_simps)

text \<open>
  C2, at the same failing input: the call is successful (it returns 3) and the descriptor
  had the flag word 2 after its creation, so the claim asks for the final word
  \<open>O_NONBLOCK OR 2 = 6\<close>. The function writes back the failed read instead: the
  \<open>F_SETFL\<close> call it makes has the argument \<open>-1\<close>, no \<open>F_SETFL\<close> call with the
  argument 6 is made, and the final flag word is not 6.
\<close>

theorem C2_failed_read_is_written_back:
  "fst (BinarySpec_createNonBlockingSocket 2 1 (scripted [Proceed, Fail 9])) = 3 \<and>
   map_option fl (fdtab (snd (socket 2 1 0 (scripted [Proceed, Fail 9]))) 3) = Some 2 \<and>
   O_NONBLOCK OR 2 = (6::int) \<and>
   (Sys_fcntl 3 F_SETFL (Some (- 1)), 0) \<in>
     set (trace (snd (BinarySpec_createNonBlockingSocket 2 1 (scripted [Proceed, Fail 9])))) \<and>
   (Sys_fcntl 3 F_SETFL (Some 6), 0) \<notin>
     set (trace (snd (BinarySpec_createNonBlockingSocket 2 1 (scripted [Proceed, Fail 9])))) \<and>
   map_option fl
     (fdtab (snd (BinarySpec_createNonBlockingSocket 2 1 (scripted [Proceed, Fail 9]))) 3) \<noteq>
     Some 6"
  by (simp add: run_simps O_NONBLOCK_def)

text \<open>
  C6, at the same failing input: the flag read of the non-blocking configuration fails
  (the \<open>F_GETFL\<close> call returns \<open>-1\<close>, \<open>errno\<close> is \<open>EBADF\<close>), and yet the function
  returns a descriptor, left open and never closed. The claim says that no descriptor is
  returned whose non-blocking configuration did not succeed.
\<close>

theorem C6_descriptor_returned_after_failed_read:
  "errno (snd (fcntl 3 F_GETFL None (snd (socket 2 1 0 (scripted [Proceed, Fail 9]))))) = 9 \<and>
   (Sys_fcntl 3 F_GETFL None, - 1) \<in>
     set (trace (snd (BinarySpec_createNonBlockingSocket 2 1 (scripted [Proceed, Fail 9])))) \<and>
   fst (BinarySpec_createNonBlockingSocket 2 1 (scripted [Proceed, Fail 9])) \<noteq> - 1 \<and>
   fdtab (snd (BinarySpec_createNonBlockingSocket 2 1 (scripted [Proceed, Fail 9])))
     (fst (BinarySpec_createNonBlockingSocket 2 1 (scripted [Proceed, Fail 9]))) \<noteq> None \<and>
   Sys_close 3 \<notin>
     fst ` set (trace (snd (BinarySpec_createNonBlockingSocket 2 1 (scripted [Proceed, Fail 9]))))"
  by (simp add: run_simps)

section \<open>The value returned on failure\<close>

text \<open>
  C4, counterexample: a creation failure (\<open>socket\<close> fails with \<open>EMFILE\<close>, 24) and a
  configuration failure (\<open>F_SETFL\<close> fails with \<open>EINVAL\<close>, 22; the descriptor is
  closed) return the same value, so the caller cannot tell them apart from it.
\<close>

theorem C4_counterexample:
  "fst (socket 2 1 0 (scripted [Fail 24])) = - 1 \<and>
   fst (socket 2 1 0 (scripted [Proceed, Proceed, Fail 22])) = 3 \<and>
   trace (snd (BinarySpec_createNonBlockingSocket 2 1 (scripted [Proceed, Proceed, Fail 22]))) =
     [(Sys_socket 2 1 0, 3), (Sys_fcntl 3 F_GETFL None, 2),
      (Sys_fcntl 3 F_SETFL (Some 6), - 1), (Sys_close 3, 0)] \<and>
   fst (BinarySpec_createNonBlockingSocket 2 1 (scripted [Fail 24])) =
     fst (BinarySpec_createNonBlockingSocket 2 1 (scripted [Proceed, Proceed, Fail 22]))"
  by (simp add: run_simps O_NONBLOCK_def)

text \<open>
  C4, amended: both kinds of failure are reported by the same return value \<open>-1\<close>, which
  carries no error code. When the \<open>socket\<close> call fails, the function returns \<open>-1\<close>
  in the state that call left, no descriptor created, with \<open>errno\<close> holding the error
  code of the call. When the \<open>F_SETFL\<close> call fails, the function closes the descriptor
  (the descriptor table is again the one before the call, and \<open>close\<close> is the last
  system call) and returns \<open>-1\<close>, with \<open>errno\<close> as the failed \<open>F_SETFL\<close> call left it
  if \<open>close\<close> returns 0.
\<close>

theorem C4_failures_return_minus_one:
  assumes "socket family type 0 s = (sck, s1)"
    and "fcntl sck F_GETFL None s1 = (flags, s2)"
    and "fcntl sck F_SETFL (Some (O_NONBLOCK OR flags)) s2 = (res, s3)"
  shows "(sck < 0 \<longrightarrow>
            BinarySpec_createNonBlockingSocket family type s = (- 1, s1) \<and>
            fdtab s1 = fdtab s \<and>
            errno s1 = (case script s of Fail e # rest \<Rightarrow> e | _ \<Rightarrow> EMFILE)) \<and>
         (0 \<le> sck \<and> res < 0 \<longrightarrow>
            BinarySpec_createNonBlockingSocket family type s = (- 1, snd (close sck s3)) \<and>
            fdtab s sck = None \<and>
            fdtab (snd (close sck s3)) = fdtab s \<and>
            trace (snd (close sck s3)) = trace s3 @ [(Sys_close sck, fst (close sck s3))] \<and>
            (fst (close sck s3) = 0 \<longrightarrow> errno (snd (close sck s3)) = errno s3))"
proof (intro conjI impI)
  assume neg: "sck < 0"
  with assms(1) show "BinarySpec_createNonBlockingSocket family type s = (- 1, s1)"
    by (simp add: BinarySpec_createNonBlockingSocket_def)
  from socket_result [OF assms(1)] neg show "fdtab s1 = fdtab s"
    by auto
  from socket_errno [OF assms(1) neg]
  show "errno s1 = (case script s of Fail e # rest \<Rightarrow> e | _ \<Rightarrow> EMFILE)" .
next
  assume "0 \<le> sck \<and> res < 0"
  then have ok: "0 \<le> sck" and failed: "res < 0"
    by simp_all
  note closes = flag_write_failure_closes [OF assms(1) ok assms(2,3) failed]
  from closes
  show "BinarySpec_createNonBlockingSocket family type s = (- 1, snd (close sck s3))"
    and "fdtab s sck = None"
    and "fdtab (snd (close sck s3)) = fdtab s"
    and "trace (snd (close sck s3)) = trace s3 @ [(Sys_close sck, fst (close sck s3))]"
    by blast+
  assume "fst (close sck s3) = 0"
  with closes show "errno (snd (close sck s3)) = errno s3"
    by blast
qed

text \<open>A failing flag write, and a full descriptor table.\<close>

theorem C4_witness:
  "fst (socket 2 1 0 (scripted [Proceed, Proceed, Fail 22])) = 3 \<and>
   fst (fcntl 3 F_SETFL (Some (O_NONBLOCK OR 2))
     (snd (fcntl 3 F_GETFL None (snd (socket 2 1 0 (scripted [Proceed, Proceed, Fail 22])))))) < 0 \<and>
   fst (BinarySpec_createNonBlockingSocket 2 1 (scripted [Proceed, Proceed, Fail 22])) = - 1 \<and>
   fdtab (snd (BinarySpec_createNonBlockingSocket 2 1 (scripted [Proceed, Proceed, Fail 22]))) 3 =
     None \<and>
   errno (snd (BinarySpec_createNonBlockingSocket 2 1 (scripted [Proceed, Proceed, Fail 22]))) =
     22 \<and>
   fst (socket 2 1 0 exhausted) < 0 \<and>
   fst (BinarySpec_createNonBlockingSocket 2 1 exhausted) = - 1 \<and>
   errno (snd (BinarySpec_createNonBlockingSocket 2 1 exhausted)) = EMFILE"
proof -
  let ?s = "scripted [Proceed, Proceed, Fail 22]"
  let ?s1 = "snd (socket 2 1 0 ?s)"
  let ?s2 = "snd (fcntl 3 F_GETFL None ?s1)"
  let ?s3 = "snd (fcntl 3 F_SETFL (Some (O_NONBLOCK OR 2)) ?s2)"
  have sck: "fst (socket 2 1 0 ?s) = 3"
    by (simp add: run_simps)
  then have a: "socket 2 1 0 ?s = (3, ?s1)"
    by (simp add: prod_eq_iff)
  have "fst (fcntl 3 F_GETFL None ?s1) = 2"
    by (simp add: run_simps)
  then have b: "fcntl 3 F_GETFL None ?s1 = (2, ?s2)"
    by (simp add: prod_eq_iff)
  have res: "fst (fcntl 3 F_SETFL (Some (O_NONBLOCK OR 2)) ?s2) = - 1"
    by (simp add: run_simps)
  then have c: "fcntl 3 F_SETFL (Some (O_NONBLOCK OR 2)) ?s2 = (- 1, ?s3)"
    by (simp add: prod_eq_iff)
  have cl: "fst (close 3 ?s3) = 0" and e3: "errno ?s3 = 22"
    by (simp_all add: run_simps)
  from C4_failures_return_minus_one [OF a b c]
  have run: "BinarySpec_createNonBlockingSocket 2 1 ?s = (- 1, snd (close 3 ?s3))"
    and free: "fdtab ?s 3 = None"
    and tab: "fdtab (snd (close 3 ?s3)) = fdtab ?s"
    and err: "fst (close 3 ?s3) = 0 \<longrightarrow> errno (snd (close 3 ?s3)) = errno ?s3"
    by simp_all
  let ?x1 = "snd (socket 2 1 0 exhausted)"
  let ?x2 = "snd (fcntl (- 1) F_GETFL None ?x1)"
  let ?x3 = "snd (fcntl (- 1) F_SETFL (Some (O_NONBLOCK OR - 1)) ?x2)"
  have full: "fst (socket 2 1 0 exhausted) = - 1"
    by (simp add: run_simps)
  then have a': "socket 2 1 0 exhausted = (- 1, ?x1)"
    by (simp add: prod_eq_iff)
  have b': "fcntl (- 1) F_GETFL None ?x1 = (- 1, ?x2)"
    by (simp add: run_simps prod_eq_iff)
  have c': "fcntl (- 1) F_SETFL (Some (O_NONBLOCK OR - 1)) ?x2 = (- 1, ?x3)"
    by (simp add: run_simps prod_eq_iff)
  have scr: "script exhausted = []"
    by (simp add: run_simps)
  from C4_failures_return_minus_one [OF a' b' c'] scr
  have run': "BinarySpec_createNonBlockingSocket 2 1 exhausted = (- 1, ?x1)"
    and err': "errno ?x1 = EMFILE"
    by simp_all
  from sck res run free tab err cl e3 full run' err' show ?thesis
    by simp
qed

section \<open>Independence of calls\<close>

text \<open>
  C8: the function has no state of its own: its only input besides its arguments is the
  system state, and of that it reads neither \<open>errno\<close> nor the trace (the result and the
  descriptor table after a call are the same from any state with the same kernel). A
  call changes no descriptor other than the one it returns, and that descriptor was not
  open before the call; a failed call changes no descriptor at all. So for two calls in a row with the same arguments: the second
  call returns a descriptor other than the one the first call returned, and leaves that
  one as the first call left it.
\<close>

theorem C8_calls_do_not_interfere:
  assumes "BinarySpec_createNonBlockingSocket family type s = (r1, s1)"
    and "BinarySpec_createNonBlockingSocket family type s1 = (r2, s2)"
  shows "(\<forall>fd. fd \<noteq> r1 \<longrightarrow> fdtab s1 fd = fdtab s fd) \<and>
         (\<forall>fd. fd \<noteq> r2 \<longrightarrow> fdtab s2 fd = fdtab s1 fd) \<and>
         (r1 \<noteq> - 1 \<longrightarrow> fdtab s r1 = None) \<and>
         (r2 \<noteq> - 1 \<longrightarrow> fdtab s1 r2 = None) \<and>
         (r1 \<noteq> - 1 \<longrightarrow> r2 \<noteq> r1 \<and> fdtab s2 r1 = fdtab s1 r1) \<and>
         (r1 = - 1 \<longrightarrow> fdtab s1 = fdtab s) \<and>
         (\<forall>e t.
            fst (BinarySpec_createNonBlockingSocket family type (s\<lparr>errno := e, trace := t\<rparr>)) = r1 \<and>
            fdtab (snd (BinarySpec_createNonBlockingSocket family type
                          (s\<lparr>errno := e, trace := t\<rparr>))) = fdtab s1)"
proof -
  note f1 = create_frame [OF assms(1)] and f2 = create_frame [OF assms(2)]
  from f1 have a: "\<forall>fd. fd \<noteq> r1 \<longrightarrow> fdtab s1 fd = fdtab s fd"
    and b: "r1 \<noteq> - 1 \<longrightarrow> fdtab s r1 = None"
    and open1: "r1 \<noteq> - 1 \<longrightarrow> 0 \<le> r1 \<and> fdtab s1 r1 \<noteq> None"
    by auto
  from f2 have c: "\<forall>fd. fd \<noteq> r2 \<longrightarrow> fdtab s2 fd = fdtab s1 fd"
    and d: "r2 \<noteq> - 1 \<longrightarrow> fdtab s1 r2 = None"
    by auto
  from open1 d have "r1 \<noteq> - 1 \<longrightarrow> r2 \<noteq> r1"
    by auto
  with c have e: "r1 \<noteq> - 1 \<longrightarrow> r2 \<noteq> r1 \<and> fdtab s2 r1 = fdtab s1 r1"
    by auto
  from f1 have g: "r1 = - 1 \<longrightarrow> fdtab s1 = fdtab s"
    by auto
  have f: "fst (BinarySpec_createNonBlockingSocket family type (s\<lparr>errno := e, trace := t\<rparr>)) = r1 \<and>
           fdtab (snd (BinarySpec_createNonBlockingSocket family type
                         (s\<lparr>errno := e, trace := t\<rparr>))) = fdtab s1" for e t
  proof -
    have "same_kernel (s\<lparr>errno := e, trace := t\<rparr>) s"
      by (simp add: same_kernel_def)
    from create_same [OF this, of family type] assms(1) show ?thesis
      by (simp add: same_kernel_def)
  qed
  from a b c d e f g show ?thesis
    by blast
qed

text \<open>
  Two calls in a row on the healthy system return the descriptors 3 and 4; a stale
  \<open>errno\<close> (35) does not change the result.
\<close>

theorem C8_witness:
  "fst (BinarySpec_createNonBlockingSocket 2 1 healthy) = 3 \<and>
   fst (BinarySpec_createNonBlockingSocket 2 1
          (snd (BinarySpec_createNonBlockingSocket 2 1 healthy))) = 4 \<and>
   fdtab (snd (BinarySpec_createNonBlockingSocket 2 1
          (snd (BinarySpec_createNonBlockingSocket 2 1 healthy)))) 3 =
     fdtab (snd (BinarySpec_createNonBlockingSocket 2 1 healthy)) 3 \<and>
   fdtab (snd (BinarySpec_createNonBlockingSocket 2 1 healthy)) 0 = fdtab healthy 0 \<and>
   fst (BinarySpec_createNonBlockingSocket 2 1 (healthy\<lparr>errno := 35, trace := []\<rparr>)) = 3"
proof -
  let ?s1 = "snd (BinarySpec_createNonBlockingSocket 2 1 healthy)"
  let ?s2 = "snd (BinarySpec_createNonBlockingSocket 2 1 ?s1)"
  have r1: "fst (BinarySpec_createNonBlockingSocket 2 1 healthy) = 3"
    by (simp add: run_simps)
  then have a: "BinarySpec_createNonBlockingSocket 2 1 healthy = (3, ?s1)"
    by (simp add: prod_eq_iff)
  have r2: "fst (BinarySpec_createNonBlockingSocket 2 1 ?s1) = 4"
    by (simp add: run_simps)
  then have b: "BinarySpec_createNonBlockingSocket 2 1 ?s1 = (4, ?s2)"
    by (simp add: prod_eq_iff)
  from C8_calls_do_not_interfere [OF a b] r1 r2 show ?thesis
    by simp
qed

section \<open>The wrappers\<close>

text \<open>
  C9: \<open>fcntl0\<close> and \<open>fcntl1\<close> are thin wrappers around \<open>fcntl\<close>: on every state,
  descriptor, command and value they return what the system call returns and leave the
  system in the state the system call leaves it in.
\<close>

theorem C9_fcntl_wrappers:
  "fcntl0 fd option s = fcntl fd option None s \<and>
   fcntl1 fd option val s = fcntl fd option (Some val) s"
  by (simp add: fcntl0_def fcntl1_def)

end
